theory Spec2Isabelle
  imports Main "HOL-Library.Sublist"
begin

section \<open>Strings\<close>

text \<open>
  A Python \<open>str\<close> is modelled as a \<open>string\<close> holding the UTF-8 bytes of the text: an
  ASCII character is one \<open>char\<close> below 128, any other code point is a run of
  \<open>char\<close>s from 128 upwards. Every delimiter the program looks for is ASCII, so
  searching, splitting and slicing at a delimiter agree with Python on this
  representation.
\<close>

definition is_ascii :: "char \<Rightarrow> bool" where
  "is_ascii c \<longleftrightarrow> (of_char c :: nat) < 128"

definition ascii_alpha :: "char \<Rightarrow> bool" where
  "ascii_alpha c \<longleftrightarrow>
     (let n = (of_char c :: nat) in (65 \<le> n \<and> n \<le> 90) \<or> (97 \<le> n \<and> n \<le> 122))"

definition ascii_digit :: "char \<Rightarrow> bool" where
  "ascii_digit c \<longleftrightarrow> (let n = (of_char c :: nat) in 48 \<le> n \<and> n \<le> 57)"

definition ascii_lower :: "char \<Rightarrow> char" where
  \<comment> \<open>\<open>str.lower\<close> on an ASCII character\<close>
  "ascii_lower c =
     (let n = (of_char c :: nat) in if 65 \<le> n \<and> n \<le> 90 then char_of (n + 32) else c)"

text \<open>
  \<open>find_sep sep s\<close> looks for the first occurrence of \<open>sep\<close> in \<open>s\<close>, scanning from the
  left, and returns the text before it and the text after it (\<open>str.partition\<close> without the
  separator); \<open>None\<close> when \<open>sep\<close> does not occur.
\<close>

fun find_sep :: "string \<Rightarrow> string \<Rightarrow> (string \<times> string) option" where
  "find_sep sep [] = (if sep = [] then Some ([], []) else None)"
| "find_sep sep (c # cs) =
     (if prefix sep (c # cs) then Some ([], drop (length sep) (c # cs))
      else map_option (\<lambda>(b, a). (c # b, a)) (find_sep sep cs))"

definition py_in :: "string \<Rightarrow> string \<Rightarrow> bool" where
  \<comment> \<open>\<open>sep in s\<close> on strings\<close>
  "py_in sep s \<longleftrightarrow> find_sep sep s \<noteq> None"

text \<open>
  \<open>str.split(sep)\<close> for a non-empty separator: the pieces between the occurrences of
  \<open>sep\<close>, found from left to right without overlap. The result is never empty. Python
  raises \<open>ValueError\<close> on an empty separator; the program only splits at the literals
  \<open>'/embed/'\<close>, \<open>'/v/'\<close> and \<open>'&'\<close>, and the model returns the whole string as one piece
  there.
\<close>

function py_split :: "string \<Rightarrow> string \<Rightarrow> string list" where
  "py_split sep s =
     (if sep = [] then [s]
      else case find_sep sep s of
             None \<Rightarrow> [s]
           | Some (b, a) \<Rightarrow> b # py_split sep a)"
  by pat_completeness auto
termination
proof (relation "measure (\<lambda>(sep, s). length s)")
  show "wf (measure (\<lambda>(sep :: string, s :: string). length s))"
    by simp
next
  fix sep s :: string and x2 b a
  assume sep: "sep \<noteq> []" and found: "find_sep sep s = Some x2" and x2: "(b, a) = x2"
  have "find_sep sep t = Some (b', a) \<Longrightarrow> length a < length t" for t b'
  proof (induction t arbitrary: b')
    case Nil
    with sep show ?case by simp
  next
    case (Cons c cs)
    show ?case
    proof (cases "prefix sep (c # cs)")
      case True
      with Cons.prems sep show ?thesis by (cases sep) auto
    next
      case False
      with Cons.prems obtain b'' where "find_sep sep cs = Some (b'', a)"
        by (auto split: prod.splits)
      from Cons.IH [OF this] show ?thesis by simp
    qed
  qed
  with found x2 show "((sep, a), (sep, s)) \<in> measure (\<lambda>(sep, s). length s)"
    by auto
qed

declare py_split.simps [simp del]

definition split_once :: "char \<Rightarrow> string \<Rightarrow> string \<times> string" where
  \<comment> \<open>\<open>s.split(c, 1)\<close> for a \<open>c\<close> that occurs in \<open>s\<close>, and \<open>s.partition(c)\<close> without the
      separator: the text before the first \<open>c\<close> and the text after it\<close>
  "split_once c s = (takeWhile (\<lambda>x. x \<noteq> c) s, drop 1 (dropWhile (\<lambda>x. x \<noteq> c) s))"

section \<open>The standard library's URL parser\<close>

text \<open>
  \<open>extract_video_id\<close> calls \<open>urlparse\<close> and \<open>parse_qs\<close> of Python's \<open>urllib.parse\<close>. They
  are modelled after the library (CPython 3.11). Three of its internals are taken as
  parameters, since they depend on Unicode tables and on the IP-address parser:
  whether the host between brackets is rejected, whether a non-ASCII network location
  is rejected after NFKC normalisation, and how percent-decoded bytes are decoded as
  UTF-8 with replacement of invalid sequences.
\<close>

record pylib =
  check_bracketed_host_raises :: "string \<Rightarrow> bool"
  checknetloc_raises :: "string \<Rightarrow> bool"
  decode_utf8_replace :: "string \<Rightarrow> string"

record parse_result =
  scheme :: string
  netloc :: string
  path :: string
  params :: string
  query :: string
  fragment :: string

definition c0_control_or_space :: "char \<Rightarrow> bool" where
  "c0_control_or_space c \<longleftrightarrow> (of_char c :: nat) \<le> 32"

definition unsafe_url_byte :: "char \<Rightarrow> bool" where
  "unsafe_url_byte c \<longleftrightarrow> c = CHR 0x09 \<or> c = CHR 0x0D \<or> c = CHR 0x0A"

definition scheme_char :: "char \<Rightarrow> bool" where
  "scheme_char c \<longleftrightarrow>
     ascii_alpha c \<or> ascii_digit c \<or> c = CHR ''+'' \<or> c = CHR ''-'' \<or> c = CHR ''.''"

definition split_scheme :: "string \<Rightarrow> string \<times> string" where
  \<comment> \<open>the scheme before the first colon, when there is one, and the rest\<close>
  "split_scheme url =
     (let pre = takeWhile (\<lambda>c. c \<noteq> CHR '':'') url in
      if CHR '':'' \<in> set url \<and> pre \<noteq> [] \<and> ascii_alpha (hd pre) \<and> list_all scheme_char pre
      then (map ascii_lower pre, drop (length pre + 1) url)
      else ([], url))"

definition netloc_delim :: "char \<Rightarrow> bool" where
  "netloc_delim c \<longleftrightarrow> c = CHR ''/'' \<or> c = CHR ''?'' \<or> c = CHR ''#''"

definition splitnetloc :: "string \<Rightarrow> string \<times> string" where
  \<comment> \<open>\<open>_splitnetloc(url, 2)\<close>: the text after the two slashes up to the first of
      \<open>/\<close>, \<open>?\<close>, \<open>#\<close>, and the rest\<close>
  "splitnetloc url =
     (let r = drop 2 url in
      (takeWhile (\<lambda>c. \<not> netloc_delim c) r, dropWhile (\<lambda>c. \<not> netloc_delim c) r))"

definition bracketed_host :: "string \<Rightarrow> string" where
  "bracketed_host nl = fst (split_once CHR '']'' (snd (split_once CHR ''['' nl)))"

definition netloc_raises :: "pylib \<Rightarrow> string \<Rightarrow> bool" where
  \<comment> \<open>the cases in which \<open>urlsplit\<close> raises \<open>ValueError\<close>\<close>
  "netloc_raises lib nl \<longleftrightarrow>
     (CHR ''['' \<in> set nl \<and> CHR '']'' \<notin> set nl) \<or>
     (CHR '']'' \<in> set nl \<and> CHR ''['' \<notin> set nl) \<or>
     (CHR ''['' \<in> set nl \<and> CHR '']'' \<in> set nl \<and>
        check_bracketed_host_raises lib (bracketed_host nl)) \<or>
     (nl \<noteq> [] \<and> \<not> list_all is_ascii nl \<and> checknetloc_raises lib nl)"

definition urlsplit :: "pylib \<Rightarrow> string \<Rightarrow> (string \<times> string \<times> string \<times> string \<times> string) option" where
  \<comment> \<open>\<open>None\<close> is the \<open>ValueError\<close>\<close>
  "urlsplit lib url0 =
     (let url1 = filter (\<lambda>c. \<not> unsafe_url_byte c) (dropWhile c0_control_or_space url0);
          (sch, url2) = split_scheme url1;
          (nl, url3) = (if take 2 url2 = ''//'' then splitnetloc url2 else ([], url2));
          (url4, frag) = (if CHR ''#'' \<in> set url3 then split_once CHR ''#'' url3 else (url3, []));
          (url5, qry) = (if CHR ''?'' \<in> set url4 then split_once CHR ''?'' url4 else (url4, []))
      in if netloc_raises lib nl then None else Some (sch, nl, url5, qry, frag))"

definition uses_params :: "string list" where
  "uses_params = ['''', ''ftp'', ''hdl'', ''prospero'', ''http'', ''imap'',
                  ''https'', ''shttp'', ''rtsp'', ''rtsps'', ''rtspu'', ''sip'',
                  ''sips'', ''mms'', ''sftp'', ''tel'']"

definition splitparams :: "string \<Rightarrow> string \<times> string" where
  \<comment> \<open>\<open>_splitparams\<close>, called on a \<open>url\<close> that contains a semicolon: the parameters are
      what follows the first semicolon of the last path segment\<close>
  "splitparams url =
     (if CHR ''/'' \<in> set url then
        (let seg = rev (takeWhile (\<lambda>c. c \<noteq> CHR ''/'') (rev url));
             dir = take (length url - length seg) url
         in if CHR '';'' \<in> set seg
            then (dir @ fst (split_once CHR '';'' seg), snd (split_once CHR '';'' seg))
            else (url, []))
      else split_once CHR '';'' url)"

definition urlparse :: "pylib \<Rightarrow> string \<Rightarrow> parse_result option" where
  "urlparse lib url =
     (case urlsplit lib url of
        None \<Rightarrow> None
      | Some (sch, nl, u, qry, frag) \<Rightarrow>
          (let (p, prm) = (if sch \<in> set uses_params \<and> CHR '';'' \<in> set u
                           then splitparams u else (u, []))
           in Some \<lparr>scheme = sch, netloc = nl, path = p, params = prm,
                    query = qry, fragment = frag\<rparr>))"

subsection \<open>Query strings\<close>

definition hexdig :: "char \<Rightarrow> bool" where
  "hexdig c \<longleftrightarrow>
     ascii_digit c \<or> (let n = (of_char c :: nat) in (65 \<le> n \<and> n \<le> 70) \<or> (97 \<le> n \<and> n \<le> 102))"

definition hexval :: "char \<Rightarrow> nat" where
  "hexval c =
     (let n = (of_char c :: nat) in
      if n \<le> 57 then n - 48 else if n \<le> 70 then n - 55 else n - 87)"

fun unquote_to_bytes :: "string \<Rightarrow> string" where
  "unquote_to_bytes [] = []"
| "unquote_to_bytes (c # cs) =
     (if c = CHR ''%'' then
        (case cs of
           a # b # rest \<Rightarrow>
             if hexdig a \<and> hexdig b
             then char_of (16 * hexval a + hexval b) # unquote_to_bytes rest
             else c # unquote_to_bytes cs
         | _ \<Rightarrow> c # unquote_to_bytes cs)
      else c # unquote_to_bytes cs)"

text \<open>
  \<open>unquote\<close> returns a string without \<open>%\<close> as it is. Otherwise it percent-decodes each
  maximal run of ASCII characters and decodes the bytes it gets as UTF-8; the text
  between the runs is kept.
\<close>

function unquote_runs :: "pylib \<Rightarrow> string \<Rightarrow> string" where
  "unquote_runs lib [] = []"
| "unquote_runs lib (c # cs) =
     (if is_ascii c
      then decode_utf8_replace lib (unquote_to_bytes (c # takeWhile is_ascii cs))
           @ unquote_runs lib (dropWhile is_ascii cs)
      else c # unquote_runs lib cs)"
  by pat_completeness auto
termination
  by (relation "measure (\<lambda>(lib, s). length s)")
     (auto simp: less_Suc_eq_le length_dropWhile_le)

definition unquote :: "pylib \<Rightarrow> string \<Rightarrow> string" where
  "unquote lib s = (if CHR ''%'' \<notin> set s then s else unquote_runs lib s)"

definition unquote_plus :: "pylib \<Rightarrow> string \<Rightarrow> string" where
  "unquote_plus lib s = unquote lib (map (\<lambda>c. if c = CHR ''+'' then CHR '' '' else c) s)"

definition parse_qsl :: "pylib \<Rightarrow> string \<Rightarrow> (string \<times> string) list" where
  \<comment> \<open>with the defaults: blank values are dropped, malformed fields are skipped\<close>
  "parse_qsl lib qs =
     (if qs = [] then []
      else concat (map (\<lambda>name_value.
             if name_value = [] then []
             else (let (name, val) = split_once CHR ''='' name_value
                   in if val = [] then [] else [(unquote_plus lib name, unquote_plus lib val)]))
           (py_split ''&'' qs)))"

definition parse_qs :: "pylib \<Rightarrow> string \<Rightarrow> (string \<rightharpoonup> string list)" where
  "parse_qs lib qs =
     foldl (\<lambda>parsed_result (name, val).
              case parsed_result name of
                Some vs \<Rightarrow> parsed_result(name \<mapsto> vs @ [val])
              | None \<Rightarrow> parsed_result(name \<mapsto> [val]))
           Map.empty (parse_qsl lib qs)"

section \<open>Identifier extraction\<close>

text \<open>
  The body of \<open>extract_video_id\<close> after the URL is parsed. \<open>params.get('v', [None])[0]\<close>
  is the first value stored under \<open>v\<close>, and \<open>None\<close> when the key is absent; an empty
  list would raise \<open>IndexError\<close>, which the \<open>except\<close> clause turns into \<open>None\<close>.
\<close>

definition video_id_of_parsed :: "pylib \<Rightarrow> parse_result \<Rightarrow> string option" where
  "video_id_of_parsed lib parsed_url =
     (if netloc parsed_url = ''youtu.be'' then Some (drop 1 (path parsed_url))
      else if netloc parsed_url = ''youtube.com'' \<or> netloc parsed_url = ''www.youtube.com'' then
        (if path parsed_url = ''/watch'' then
           (case parse_qs lib (query parsed_url) ''v'' of
              None \<Rightarrow> None
            | Some [] \<Rightarrow> None
            | Some (v # _) \<Rightarrow> Some v)
         else if py_in ''/embed/'' (path parsed_url)
           then Some (last (py_split ''/embed/'' (path parsed_url)))
         else if py_in ''/v/'' (path parsed_url)
           then Some (last (py_split ''/v/'' (path parsed_url)))
         else None)
      else None)"

definition extract_video_id :: "pylib \<Rightarrow> string \<Rightarrow> string option" where
  \<comment> \<open>the \<open>ValueError\<close> of the parser is caught and gives \<open>None\<close>\<close>
  "extract_video_id lib url =
     (case urlparse lib url of
        None \<Rightarrow> None
      | Some parsed_url \<Rightarrow> video_id_of_parsed lib parsed_url)"

section \<open>Data model\<close>

record video_summary =
  video_id :: string
  title :: "string option"
  transcript :: "string option"
  summary :: "string option"
  error :: "string option"

text \<open>
  A segment of the transcript service: its \<open>text\<close>, \<open>start\<close> and \<open>duration\<close>. The timing is a
  floating-point number in Python; the program never reads it, so its type is left
  open.
\<close>

record 't segment =
  seg_text :: string
  seg_start :: 't
  seg_duration :: 't

record youtube_summarizer =
  model_name :: string

subsection \<open>The environment\<close>

text \<open>
  Every call that leaves the program is an event of the trace, in the order of the
  calls. The answers of the outside world are parameters: an external call that raises
  returns \<open>None\<close>, and the two file-system predicates say where the operating system
  refuses to create the directory or to open the file (permissions, a missing parent
  directory). The log is not modelled.
\<close>

datatype event =
    TranscriptRequest string "string list"
  | GenerateRequest string string
  | Mkdir string
  | OpenWrite string

record 't env =
  urllib :: pylib
  transcript_api :: "string \<Rightarrow> string list \<Rightarrow> 't segment list option"
  generate_content :: "string \<Rightarrow> string \<Rightarrow> string option"
  mkdir_refused :: "string \<Rightarrow> bool"
  open_refused :: "string \<Rightarrow> bool"

record world =
  files :: "string \<rightharpoonup> string"
  dirs :: "string set"
  events :: "event list"

definition emit :: "event \<Rightarrow> world \<Rightarrow> world" where
  "emit e w = w\<lparr>events := events w @ [e]\<rparr>"

section \<open>Transcript retrieval\<close>

fun py_join :: "string \<Rightarrow> string list \<Rightarrow> string" where
  \<comment> \<open>\<open>sep.join(xs)\<close>\<close>
  "py_join sep [] = []"
| "py_join sep [x] = x"
| "py_join sep (x # y # ys) = x @ sep @ py_join sep (y # ys)"

definition get_transcript ::
  "'t env \<Rightarrow> world \<Rightarrow> string \<Rightarrow> string list option \<Rightarrow> string option \<times> world" where
  "get_transcript env w vid languages =
     (let langs = (case languages of None \<Rightarrow> [''es'', ''en''] | Some ls \<Rightarrow> ls);
          w' = emit (TranscriptRequest vid langs) w
      in case transcript_api env vid langs of
           None \<Rightarrow> (None, w')
         | Some segments \<Rightarrow> (Some (py_join '' '' (map seg_text segments)), w'))"

text \<open>
  The wording of the specification, for comparison: the texts in their order, each one
  after the first preceded by one space.
\<close>

definition spec_space_joined :: "string list \<Rightarrow> string" where
  "spec_space_joined texts =
     (case texts of
        [] \<Rightarrow> []
      | t # ts \<Rightarrow> t @ concat (map (\<lambda>s. CHR '' '' # s) ts))"

section \<open>Prompt construction\<close>

text \<open>The lines of the template between the opening quotes and the transcript.\<close>

definition template_lines :: "string list" where
  "template_lines =
    [''        Generate a detailed and structured analysis of the following transcript, focusing on breaking down each section in-depth, explaining technical concepts, connecting ideas, and providing recommendations for further learning at the end.'',
     '''',
     ''        1. **Main Title and Context**:'',
     ''          - **Catchy Title**: Create a title that concisely and attractively captures the essence of the content. The title should be relevant to the topic and catch the reader's attention.'',
     ''          - **Brief Context**: Provide a brief explanation of the general context of the topic discussed in the transcript. Be sure to include the main purpose of the content, the area of focus, and the significance of the topic. Why is it relevant now, and who might benefit from this information?'',
     '''',
     ''        2. **Key Points**:'',
     ''          - **Main Ideas and Concepts**: Identify and list the most important points discussed in the transcript. Explain each concept in detail, highlighting the most relevant ones and how they contribute to the overall message of the content.'',
     ''          - **Technical Explanations**: Break down any technical terms or specialized concepts. Provide clear, understandable definitions followed by concrete examples that illustrate how these terms are applied in real situations. If abstract concepts are mentioned, provide an analogy or simplified explanation.'',
     ''          - **Relevant Examples**: Describe the examples provided in the content. Be sure to explain how these examples illustrate the key points, and how they can be applied in different practical contexts. If no explicit examples are provided, create your own that reflect the concepts discussed.'',
     '''',
     ''        3. **Structure and Development**:'',
     ''          - **Logical Progression of Ideas**: Explain how the content develops logically. How are ideas introduced and connected? How do the ideas evolve as the transcript progresses? Detail how the author builds their argument.'',
     ''          - **Connection Between Concepts**: Point out how different concepts are interconnected throughout the content. How do the key points, technical explanations, and examples link together? How do they support each other to build a deeper understanding of the topic?'',
     ''          - **Arguments and Evidence**: Summarize the main arguments presented. Explain how each one is supported by evidence, whether through data, facts, examples, or quotes. Detail the validity of the evidence presented and how it strengthens the argument.'',
     '''',
     ''        4. **Conclusions and Applications**:'',
     ''          - **Main Ideas**: Highlight the most important conclusions without merely summarizing them. Explain why these conclusions are crucial for understanding the topic and how they contribute to the general understanding.'',
     ''          - **Practical Implications**: Discuss the practical implications of the concepts discussed. How can these concepts or ideas be applied in the real world? Provide examples of industries, professions, or fields where this information might be useful and how it would change practices in those contexts.'',
     ''          - **Recommendations or Next Steps**: Based on the conclusions, suggest possible next steps or recommendations for the reader. What should the reader do with this information? How can they implement what they've learned in their professional or personal life? If relevant, suggest areas for further research or exploration.'',
     '''',
     ''        5. **Recommendations for Further Learning**:'',
     ''          - **Areas to Dive Deeper**: Based on the concepts discussed, provide key areas to explore further. For example, if data analysis techniques are mentioned, suggest which algorithms or methods to study. If a technical concept is discussed, what other approaches or related theories could be explored?'',
     ''          - **Resources for Study**: Provide links to additional resources, such as books, online courses, academic papers, or specific tools. If the content deals with a technical topic like programming or data science, suggest learning platforms, practical tutorials, or software that could help master these concepts.'',
     ''          - **Study Tips and Best Practices**: Offer advice on how to approach learning the key concepts discussed in the transcript. This may include study strategies, best practices for applying the content, or warnings about common mistakes beginners often make in that field.'',
     '''',
     ''        Transcript:'']"

definition prompt_head :: string where
  "prompt_head = concat (map (\<lambda>l. CHR 0x0A # l) template_lines) @ CHR 0x0A # ''        ''"

definition prompt_tail :: string where
  "prompt_tail = CHR 0x0A # ''        ''"

definition create_summary_prompt :: "string \<Rightarrow> string" where
  "create_summary_prompt t = prompt_head @ t @ prompt_tail"

section \<open>Summary generation\<close>

definition get_gemini_response ::
  "youtube_summarizer \<Rightarrow> 't env \<Rightarrow> world \<Rightarrow> string \<Rightarrow> string option \<times> world" where
  "get_gemini_response self env w prompt =
     (generate_content env (model_name self) prompt,
      emit (GenerateRequest (model_name self) prompt) w)"

section \<open>Persistence\<close>

datatype pyval = PyNone | PyStr string

definition summary_dict :: "video_summary \<Rightarrow> (string \<times> pyval) list" where
  \<comment> \<open>the dictionary in the order of its keys\<close>
  "summary_dict s =
     [(''video_id'', PyStr (video_id s)),
      (''transcript'', case_option PyNone PyStr (transcript s)),
      (''summary'', case_option PyNone PyStr (summary s)),
      (''error'', case_option PyNone PyStr (error s))]"

text \<open>
  \<open>json.dump\<close> with \<open>ensure_ascii=False\<close> and \<open>indent=2\<close>. Only the quote, the backslash
  and the control characters below 32 are escaped.
\<close>

definition hex_digit_lower :: "nat \<Rightarrow> char" where
  "hex_digit_lower n = (if n < 10 then char_of (48 + n) else char_of (87 + n))"

definition json_escape :: "char \<Rightarrow> string" where
  "json_escape c =
     (if c = CHR 0x22 then [CHR 0x5C, CHR 0x22]
      else if c = CHR 0x5C then [CHR 0x5C, CHR 0x5C]
      else if c = CHR 0x08 then [CHR 0x5C, CHR ''b'']
      else if c = CHR 0x0C then [CHR 0x5C, CHR ''f'']
      else if c = CHR 0x0A then [CHR 0x5C, CHR ''n'']
      else if c = CHR 0x0D then [CHR 0x5C, CHR ''r'']
      else if c = CHR 0x09 then [CHR 0x5C, CHR ''t'']
      else if (of_char c :: nat) < 32
        then [CHR 0x5C, CHR ''u'', CHR ''0'', CHR ''0'',
              hex_digit_lower (of_char c div 16), hex_digit_lower (of_char c mod 16)]
      else [c])"

definition py_encode_basestring :: "string \<Rightarrow> string" where
  "py_encode_basestring s = CHR 0x22 # concat (map json_escape s) @ [CHR 0x22]"

fun json_value :: "pyval \<Rightarrow> string" where
  "json_value PyNone = ''null''"
| "json_value (PyStr s) = py_encode_basestring s"

definition json_dump_indent2 :: "(string \<times> pyval) list \<Rightarrow> string" where
  "json_dump_indent2 items =
     (if items = [] then ''{}''
      else ''{'' @ CHR 0x0A # ''  ''
           @ py_join (CHR '','' # CHR 0x0A # ''  '')
               (map (\<lambda>(k, v). py_encode_basestring k @ '': '' @ json_value v) items)
           @ CHR 0x0A # ''}'')"

text \<open>
  \<open>Path("summaries") / f"summary_{summary.video_id}.json"\<close>. The path library cuts the
  right operand at its slashes, drops the empty components and the components \<open>.\<close>, and
  joins what is left to \<open>summaries\<close> with single slashes. The operand begins with the
  letter \<open>s\<close>, so it is never an absolute path that would replace the directory.
\<close>

definition posix_parts :: "string \<Rightarrow> string list" where
  "posix_parts part = filter (\<lambda>x. x \<noteq> [] \<and> x \<noteq> ''.'') (py_split ''/'' part)"

definition output_file :: "video_summary \<Rightarrow> string" where
  "output_file s =
     py_join ''/'' (''summaries'' # posix_parts (''summary_'' @ video_id s @ ''.json''))"

text \<open>
  \<open>mkdir(exist_ok=True)\<close> raises when a file of that name exists or the system
  refuses; \<open>open(..., 'w')\<close> raises when the name is a directory or the system refuses.
  Every exception ends the function and leaves the files as they are. An opened file
  is replaced by the new text. File names are the names given to the system, with
  \<open>/\<close> as the separator; line ends are written as they are.
\<close>

definition save_summary :: "'t env \<Rightarrow> world \<Rightarrow> video_summary \<Rightarrow> world" where
  "save_summary env w s =
     (let w1 = emit (Mkdir ''summaries'') w in
      if files w1 ''summaries'' \<noteq> None \<or> mkdir_refused env ''summaries'' then w1
      else
        (let w2 = emit (OpenWrite (output_file s)) (w1\<lparr>dirs := insert ''summaries'' (dirs w1)\<rparr>) in
         if output_file s \<in> dirs w2 \<or> open_refused env (output_file s) then w2
         else w2\<lparr>files := (files w2)(output_file s \<mapsto> json_dump_indent2 (summary_dict s))\<rparr>))"

section \<open>Orchestration\<close>

definition invalid_url :: video_summary where
  "invalid_url = \<lparr>video_id = '''', title = None, transcript = None, summary = None,
                   error = Some ''Invalid YouTube URL''\<rparr>"

definition process_video ::
  "youtube_summarizer \<Rightarrow> 't env \<Rightarrow> world \<Rightarrow> string \<Rightarrow> bool \<Rightarrow> video_summary \<times> world" where
  "process_video self env w url save_to_file =
     (case extract_video_id (urllib env) url of
        None \<Rightarrow> (invalid_url, w)
      | Some vid \<Rightarrow>
          if vid = [] then (invalid_url, w)
          else
            (let summary0 = \<lparr>video_id = vid, title = None, transcript = None,
                              summary = None, error = None\<rparr>;
                 (tr, w1) = get_transcript env w vid None
             in case tr of
                  None \<Rightarrow> (summary0\<lparr>error := Some ''Failed to fetch transcript''\<rparr>, w1)
                | Some t \<Rightarrow>
                    if t = [] then (summary0\<lparr>error := Some ''Failed to fetch transcript''\<rparr>, w1)
                    else
                      (let summary1 = summary0\<lparr>transcript := Some t\<rparr>;
                           prompt = create_summary_prompt t;
                           (summary_text, w2) = get_gemini_response self env w1 prompt
                       in case summary_text of
                            None \<Rightarrow> (summary1\<lparr>error := Some ''Failed to generate summary''\<rparr>, w2)
                          | Some g \<Rightarrow>
                              if g = [] then
                                (summary1\<lparr>error := Some ''Failed to generate summary''\<rparr>, w2)
                              else
                                (let summary2 = summary1\<lparr>summary := Some g\<rparr>
                                 in (summary2,
                                     if save_to_file then save_summary env w2 summary2 else w2)))))"

section \<open>An example environment\<close>

text \<open>
  A library that rejects no host and leaves decoded bytes as they are, a transcript
  service that knows one video, and a generation service that knows one model.
\<close>

definition example_lib :: pylib where
  "example_lib = \<lparr>check_bracketed_host_raises = (\<lambda>_. False),
                   checknetloc_raises = (\<lambda>_. False),
                   decode_utf8_replace = (\<lambda>s. s)\<rparr>"

definition hello_world :: "nat segment list" where
  "hello_world = [\<lparr>seg_text = ''Hello'', seg_start = 0, seg_duration = 1\<rparr>,
                  \<lparr>seg_text = ''world'', seg_start = 1, seg_duration = 2\<rparr>]"

definition example_env :: "nat env" where
  "example_env =
     \<lparr>urllib = example_lib,
      transcript_api = (\<lambda>vid langs. if vid = ''abc123'' then Some hello_world else None),
      generate_content = (\<lambda>m prompt. if m = ''gemini-pro'' then Some ''Summary'' else None),
      mkdir_refused = (\<lambda>_. False),
      open_refused = (\<lambda>_. False)\<rparr>"

definition example_self :: youtube_summarizer where
  "example_self = \<lparr>model_name = ''gemini-pro''\<rparr>"

definition empty_world :: world where
  "empty_world = \<lparr>files = Map.empty, dirs = {}, events = []\<rparr>"

definition other_self :: youtube_summarizer where
  "other_self = \<lparr>model_name = ''other-model''\<rparr>"

text \<open>The UTF-8 bytes of two characters outside ASCII.\<close>

definition nihon :: string where
  "nihon = [CHR 0xE6, CHR 0x97, CHR 0xA5, CHR 0xE6, CHR 0x9C, CHR 0xAC]"

definition first_record :: video_summary where
  "first_record = \<lparr>video_id = ''abc123'', title = None, transcript = Some ''Hello world'',
                     summary = Some ''Summary'', error = None\<rparr>"

definition second_record :: video_summary where
  "second_record = \<lparr>video_id = ''abc123'', title = None, transcript = Some ''Hola'',
                      summary = Some nihon, error = None\<rparr>"

section \<open>Notions used in the statements\<close>

definition fs_event :: "event \<Rightarrow> bool" where
  \<comment> \<open>the events of \<open>_save_summary\<close>\<close>
  "fs_event e = (case e of Mkdir _ \<Rightarrow> True | OpenWrite _ \<Rightarrow> True | _ \<Rightarrow> False)"

definition new_events :: "world \<Rightarrow> world \<Rightarrow> event list" where
  \<comment> \<open>the events of \<open>w'\<close> after those of \<open>w\<close>\<close>
  "new_events w w' = drop (length (events w)) (events w')"










text \<open>
  The wording of the specification, for comparison: the first segment of a path is the
  text between its leading slash and the next slash, the trailing segment is the text
  after its last slash.
\<close>

definition spec_first_path_segment :: "string \<Rightarrow> string" where
  "spec_first_path_segment p = takeWhile (\<lambda>c. c \<noteq> CHR ''/'') (drop 1 p)"

definition spec_trailing_path_segment :: "string \<Rightarrow> string" where
  "spec_trailing_path_segment p = rev (takeWhile (\<lambda>c. c \<noteq> CHR ''/'') (rev p))"






definition short_parsed :: parse_result where
  "short_parsed = \<lparr>scheme = ''https'', netloc = ''youtu.be'', path = ''/a/b'',
                     params = [], query = [], fragment = []\<rparr>"

definition embed_parsed :: parse_result where
  "embed_parsed = \<lparr>scheme = ''https'', netloc = ''www.youtube.com'', path = ''/embed/abc123'',
                     params = [], query = [], fragment = []\<rparr>"

definition v_parsed :: parse_result where
  "v_parsed = \<lparr>scheme = ''https'', netloc = ''youtube.com'', path = ''/v/abc123'',
                 params = [], query = [], fragment = []\<rparr>"

definition embed_twice_parsed :: parse_result where
  "embed_twice_parsed = \<lparr>scheme = ''https'', netloc = ''www.youtube.com'',
                           path = ''/embed/embed/x'', params = [], query = [], fragment = []\<rparr>"

section \<open>Searching and splitting: properties\<close>

lemma find_sep_Some: "find_sep sep s = Some (b, a) \<Longrightarrow> s = b @ sep @ a"
proof (induction s arbitrary: b)
  case Nil
  then show ?case by (simp split: if_splits)
next
  case (Cons c cs)
  show ?case
  proof (cases "prefix sep (c # cs)")
    case True
    with Cons.prems have ba: "b = []" "a = drop (length sep) (c # cs)"
      by simp_all
    from True obtain r where "c # cs = sep @ r" by (auto simp: prefix_def)
    with ba show ?thesis by simp
  next
    case False
    with Cons.prems obtain b' where b': "find_sep sep cs = Some (b', a)" "b = c # b'"
      by (auto split: prod.splits)
    from Cons.IH [OF b'(1)] b'(2) show ?thesis by simp
  qed
qed





lemma py_split_not_Nil: "py_split sep s \<noteq> []"
  by (subst py_split.simps) (simp split: option.splits prod.splits)

lemma last_py_split:
  "sep \<noteq> [] \<Longrightarrow> py_in sep s \<Longrightarrow> \<exists>pre. s = pre @ sep @ last (py_split sep s)"
proof (induction sep s rule: py_split.induct)
  case (1 sep s)
  from "1.prems" obtain b a where f: "find_sep sep s = Some (b, a)"
    by (auto simp: py_in_def)
  then have s: "s = b @ sep @ a" by (rule find_sep_Some)
  have sp: "py_split sep s = b # py_split sep a"
    using f "1.prems"(1) by (subst py_split.simps) simp
  show ?case
  proof (cases "find_sep sep a")
    case None
    then have "py_split sep a = [a]"
      using "1.prems"(1) by (subst py_split.simps) simp
    with sp s show ?thesis by auto
  next
    case (Some ba)
    then have "py_in sep a" by (simp add: py_in_def)
    from "1.IH" [OF "1.prems"(1) f refl "1.prems"(1) this]
    obtain pre where "a = pre @ sep @ last (py_split sep a)" by blast
    with s have "s = (b @ sep @ pre) @ sep @ last (py_split sep a)" by simp
    moreover have "last (py_split sep s) = last (py_split sep a)"
      using sp py_split_not_Nil [of sep a] by simp
    ultimately show ?thesis by metis
  qed
qed



lemma last_py_split_clean:
  "sep \<noteq> [] \<Longrightarrow> \<not> py_in sep (last (py_split sep s))"
proof (induction sep s rule: py_split.induct)
  case (1 sep s)
  show ?case
  proof (cases "find_sep sep s")
    case None
    then have "py_split sep s = [s]"
      using "1.prems" by (subst py_split.simps) simp
    with None show ?thesis by (simp add: py_in_def)
  next
    case (Some ba)
    then obtain b a where f: "find_sep sep s = Some (b, a)" by (cases ba) auto
    then have "py_split sep s = b # py_split sep a"
      using "1.prems" by (subst py_split.simps) simp
    then have "last (py_split sep s) = last (py_split sep a)"
      using py_split_not_Nil [of sep a] by simp
    with "1.IH" [OF "1.prems" f refl "1.prems"] show ?thesis by simp
  qed
qed

section \<open>Transcript retrieval: properties\<close>

lemma py_join_space: "py_join '' '' texts = spec_space_joined texts"
  by (induction "'' ''" texts rule: py_join.induct) (simp_all add: spec_space_joined_def)

lemma get_transcript_events:
  "events (snd (get_transcript env w vid languages)) =
     events w @ [TranscriptRequest vid (case languages of None \<Rightarrow> [''es'', ''en''] | Some ls \<Rightarrow> ls)]"
  by (simp add: get_transcript_def emit_def Let_def split: option.splits)

text \<open>
  C5. Whenever the transcript service answers the request with a sequence of
  segments, the transcript returned by \<open>get_transcript\<close> is the texts of the segments
  in their order, joined by one space; the start and the duration of a segment do not
  occur in the result.
\<close>

theorem get_transcript_joins_texts:
  "transcript_api env vid (case languages of None \<Rightarrow> [''es'', ''en''] | Some ls \<Rightarrow> ls) = Some segs \<Longrightarrow>
   fst (get_transcript env w vid languages) = Some (spec_space_joined (map seg_text segs))"
  by (simp add: get_transcript_def Let_def py_join_space)

text \<open>The segments \<open>Hello\<close> and \<open>world\<close> give \<open>Hello world\<close>.\<close>

theorem get_transcript_joins_texts_witness:
  "transcript_api example_env ''abc123'' [''es'', ''en''] = Some hello_world \<and>
   fst (get_transcript example_env empty_world ''abc123'' None) = Some ''Hello world''"
proof -
  have h: "transcript_api example_env ''abc123''
             (case None of None \<Rightarrow> [''es'', ''en''] | Some ls \<Rightarrow> ls) = Some hello_world"
    by (simp add: example_env_def)
  have "spec_space_joined (map seg_text hello_world) = ''Hello world''"
    by (simp add: spec_space_joined_def hello_world_def)
  with get_transcript_joins_texts [OF h, of empty_world] h show ?thesis by simp
qed

section \<open>Prompt construction: properties\<close>

text \<open>
  C6. For every transcript, the prompt is a fixed text, the transcript itself and a
  fixed text: the transcript is a contiguous part of the prompt, whatever characters it
  holds, the empty transcript included.
\<close>

theorem create_summary_prompt_contains_transcript:
  "create_summary_prompt t = prompt_head @ t @ prompt_tail \<and> sublist t (create_summary_prompt t)"
  unfolding create_summary_prompt_def sublist_def by blast

section \<open>Orchestration: properties\<close>

text \<open>The four ways through \<open>process_video\<close>, and what each returns.\<close>

lemma process_video_invalid:
  "extract_video_id (urllib env) url = None \<or> extract_video_id (urllib env) url = Some [] \<Longrightarrow>
   process_video self env w url save = (invalid_url, w)"
  by (auto simp: process_video_def)

lemma process_video_no_transcript:
  assumes "extract_video_id (urllib env) url = Some vid" "vid \<noteq> []"
    and "fst (get_transcript env w vid None) = None \<or> fst (get_transcript env w vid None) = Some []"
  shows "process_video self env w url save =
           (\<lparr>video_id = vid, title = None, transcript = None, summary = None,
              error = Some ''Failed to fetch transcript''\<rparr>,
            emit (TranscriptRequest vid [''es'', ''en'']) w)"
  using assms
  by (auto simp: process_video_def get_transcript_def Let_def split: option.splits)

lemma process_video_no_summary:
  assumes "extract_video_id (urllib env) url = Some vid" "vid \<noteq> []"
    and "fst (get_transcript env w vid None) = Some t" "t \<noteq> []"
    and "generate_content env (model_name self) (create_summary_prompt t) = None \<or>
         generate_content env (model_name self) (create_summary_prompt t) = Some []"
  shows "process_video self env w url save =
           (\<lparr>video_id = vid, title = None, transcript = Some t, summary = None,
              error = Some ''Failed to generate summary''\<rparr>,
            emit (GenerateRequest (model_name self) (create_summary_prompt t))
              (emit (TranscriptRequest vid [''es'', ''en'']) w))"
  using assms
  by (auto simp: process_video_def get_transcript_def get_gemini_response_def Let_def
           split: option.splits)

lemma process_video_success:
  assumes "extract_video_id (urllib env) url = Some vid" "vid \<noteq> []"
    and "fst (get_transcript env w vid None) = Some t" "t \<noteq> []"
    and "generate_content env (model_name self) (create_summary_prompt t) = Some g" "g \<noteq> []"
  shows "process_video self env w url save =
           (let r = \<lparr>video_id = vid, title = None, transcript = Some t, summary = Some g,
                      error = None\<rparr>;
                w2 = emit (GenerateRequest (model_name self) (create_summary_prompt t))
                       (emit (TranscriptRequest vid [''es'', ''en'']) w)
            in (r, if save then save_summary env w2 r else w2))"
  using assms
  by (auto simp: process_video_def get_transcript_def get_gemini_response_def Let_def
           split: option.splits)

lemma process_video_cases:
  obtains
    (invalid) "extract_video_id (urllib env) url = None \<or> extract_video_id (urllib env) url = Some []"
  | (no_transcript) vid where "extract_video_id (urllib env) url = Some vid" "vid \<noteq> []"
      "fst (get_transcript env w vid None) = None \<or> fst (get_transcript env w vid None) = Some []"
  | (no_summary) vid t where "extract_video_id (urllib env) url = Some vid" "vid \<noteq> []"
      "fst (get_transcript env w vid None) = Some t" "t \<noteq> []"
      "generate_content env (model_name self) (create_summary_prompt t) = None \<or>
       generate_content env (model_name self) (create_summary_prompt t) = Some []"
  | (success) vid t g where "extract_video_id (urllib env) url = Some vid" "vid \<noteq> []"
      "fst (get_transcript env w vid None) = Some t" "t \<noteq> []"
      "generate_content env (model_name self) (create_summary_prompt t) = Some g" "g \<noteq> []"
proof (cases "extract_video_id (urllib env) url")
  case None
  then show ?thesis using invalid by simp
next
  case (Some vid)
  note ex = this
  show ?thesis
  proof (cases "vid = []")
    case True
    with ex show ?thesis using invalid by simp
  next
    case False
    note vid = this
    show ?thesis
    proof (cases "fst (get_transcript env w vid None)")
      case None
      with ex vid show ?thesis using no_transcript by simp
    next
      case (Some t)
      note tr = this
      show ?thesis
      proof (cases "t = []")
        case True
        with ex vid tr show ?thesis using no_transcript by simp
      next
        case False
        note t = this
        show ?thesis
        proof (cases "generate_content env (model_name self) (create_summary_prompt t)")
          case None
          with ex vid tr t show ?thesis using no_summary by simp
        next
          case (Some g)
          with ex vid tr t show ?thesis using no_summary success by (cases "g = []") auto
        qed
      qed
    qed
  qed
qed

text \<open>The example environment at three URLs.\<close>

lemma extract_example_com: "extract_video_id (urllib example_env) ''https://example.com/abc123'' = None"
  by code_simp

lemma extract_zzz: "extract_video_id (urllib example_env) ''https://youtu.be/zzz'' = Some ''zzz''"
  by code_simp

lemma extract_abc123: "extract_video_id (urllib example_env) ''https://youtu.be/abc123'' = Some ''abc123''"
  by code_simp

lemma transcript_zzz: "fst (get_transcript example_env w ''zzz'' None) = None"
  by (simp add: get_transcript_def example_env_def Let_def)

lemma transcript_abc123: "fst (get_transcript example_env w ''abc123'' None) = Some ''Hello world''"
  by (simp add: get_transcript_def example_env_def Let_def hello_world_def)

lemma generate_example: "generate_content example_env (model_name example_self) p = Some ''Summary''"
  by (simp add: example_env_def example_self_def)

lemma generate_other: "generate_content example_env (model_name other_self) p = None"
  by (simp add: example_env_def other_self_def)

text \<open>
  C1. When identifier extraction gives nothing (\<open>None\<close>, or the empty string, which
  \<open>not video_id\<close> treats alike), the record's error is \<open>Invalid YouTube URL\<close> and the world
  is unchanged: no transcript request and no generation request is made. When an
  identifier is found and the transcript fetch gives nothing, the error is
  \<open>Failed to fetch transcript\<close> and the only new event is the transcript request: no
  generation request is made, and no file is touched.
\<close>

theorem process_video_short_circuits:
  "(extract_video_id (urllib env) url = None \<or> extract_video_id (urllib env) url = Some [] \<longrightarrow>
      error (fst (process_video self env w url save)) = Some ''Invalid YouTube URL'' \<and>
      snd (process_video self env w url save) = w) \<and>
   (extract_video_id (urllib env) url = Some vid \<and> vid \<noteq> [] \<and>
      (fst (get_transcript env w vid None) = None \<or>
       fst (get_transcript env w vid None) = Some []) \<longrightarrow>
      error (fst (process_video self env w url save)) = Some ''Failed to fetch transcript'' \<and>
      events (snd (process_video self env w url save)) =
        events w @ [TranscriptRequest vid [''es'', ''en'']] \<and>
      files (snd (process_video self env w url save)) = files w \<and>
      dirs (snd (process_video self env w url save)) = dirs w)"
  by (auto simp: process_video_invalid process_video_no_transcript invalid_url_def emit_def)

theorem process_video_short_circuits_witness:
  "extract_video_id (urllib example_env) ''https://example.com/abc123'' = None \<and>
   error (fst (process_video example_self example_env empty_world ''https://example.com/abc123'' True))
     = Some ''Invalid YouTube URL'' \<and>
   snd (process_video example_self example_env empty_world ''https://example.com/abc123'' True)
     = empty_world \<and>
   extract_video_id (urllib example_env) ''https://youtu.be/zzz'' = Some ''zzz'' \<and>
   fst (get_transcript example_env empty_world ''zzz'' None) = None \<and>
   error (fst (process_video example_self example_env empty_world ''https://youtu.be/zzz'' True))
     = Some ''Failed to fetch transcript'' \<and>
   events (snd (process_video example_self example_env empty_world ''https://youtu.be/zzz'' True))
     = [TranscriptRequest ''zzz'' [''es'', ''en'']]"
proof -
  note h1 = extract_example_com and h2 = extract_zzz
    and h3 = transcript_zzz [of empty_world]
  have e: "events empty_world = []" by (simp add: empty_world_def)
  from h1 process_video_short_circuits [where env = example_env and url = "''https://example.com/abc123''"
      and self = example_self and w = empty_world and save = True]
  have a: "error (fst (process_video example_self example_env empty_world ''https://example.com/abc123'' True))
     = Some ''Invalid YouTube URL'' \<and>
   snd (process_video example_self example_env empty_world ''https://example.com/abc123'' True)
     = empty_world"
    by blast
  from h2 h3 process_video_short_circuits [where env = example_env and url = "''https://youtu.be/zzz''"
      and self = example_self and w = empty_world and save = True and vid = "''zzz''"]
  have b: "error (fst (process_video example_self example_env empty_world ''https://youtu.be/zzz'' True))
     = Some ''Failed to fetch transcript'' \<and>
   events (snd (process_video example_self example_env empty_world ''https://youtu.be/zzz'' True))
     = events empty_world @ [TranscriptRequest ''zzz'' [''es'', ''en'']]"
    by simp
  from a b h1 h2 h3 e show ?thesis by simp
qed

text \<open>
  C2, as the specification states it, fails: when generation fails after the transcript
  was fetched, the returned record has an error and a transcript.
\<close>

theorem generation_failure_keeps_transcript:
  "error (fst (process_video other_self example_env empty_world ''https://youtu.be/abc123'' False))
     = Some ''Failed to generate summary'' \<and>
   transcript (fst (process_video other_self example_env empty_world ''https://youtu.be/abc123'' False))
     = Some ''Hello world''"
  using process_video_no_summary [OF extract_abc123 _ transcript_abc123, of other_self empty_world False]
    generate_other
  by simp

text \<open>
  C2, amended. The record returned by \<open>process_video\<close> is determined by the stage that
  fails: the invalid-URL record when no identifier is found; the identifier and the
  error when the transcript fetch gives nothing; the identifier, the fetched
  transcript itself and the error when the generation gives nothing; the identifier,
  the fetched transcript and the generated summary, without error, when all stages
  succeed. So every record has no title and is a success exactly when it has no error;
  a failed record never has a summary, but it keeps the transcript that was fetched
  when only the generation failed.
\<close>

theorem process_video_terminal_states:
  "(extract_video_id (urllib env) url = None \<or> extract_video_id (urllib env) url = Some [] \<longrightarrow>
      fst (process_video self env w url save) =
        \<lparr>video_id = [], title = None, transcript = None, summary = None,
           error = Some ''Invalid YouTube URL''\<rparr>) \<and>
   (extract_video_id (urllib env) url = Some vid \<and> vid \<noteq> [] \<and>
      (fst (get_transcript env w vid None) = None \<or>
       fst (get_transcript env w vid None) = Some []) \<longrightarrow>
      fst (process_video self env w url save) =
        \<lparr>video_id = vid, title = None, transcript = None, summary = None,
           error = Some ''Failed to fetch transcript''\<rparr>) \<and>
   (extract_video_id (urllib env) url = Some vid \<and> vid \<noteq> [] \<and>
      fst (get_transcript env w vid None) = Some t \<and> t \<noteq> [] \<and>
      (generate_content env (model_name self) (create_summary_prompt t) = None \<or>
       generate_content env (model_name self) (create_summary_prompt t) = Some []) \<longrightarrow>
      fst (process_video self env w url save) =
        \<lparr>video_id = vid, title = None, transcript = Some t, summary = None,
           error = Some ''Failed to generate summary''\<rparr>) \<and>
   (extract_video_id (urllib env) url = Some vid \<and> vid \<noteq> [] \<and>
      fst (get_transcript env w vid None) = Some t \<and> t \<noteq> [] \<and>
      generate_content env (model_name self) (create_summary_prompt t) = Some g \<and> g \<noteq> [] \<longrightarrow>
      fst (process_video self env w url save) =
        \<lparr>video_id = vid, title = None, transcript = Some t, summary = Some g, error = None\<rparr>) \<and>
   (let r = fst (process_video self env w url save) in
    title r = None \<and>
    ((error r = None \<and> (\<exists>t g. t \<noteq> [] \<and> g \<noteq> [] \<and> transcript r = Some t \<and> summary r = Some g)) \<or>
     (error r = Some ''Invalid YouTube URL'' \<and> video_id r = [] \<and>
        transcript r = None \<and> summary r = None) \<or>
     (error r = Some ''Failed to fetch transcript'' \<and> transcript r = None \<and> summary r = None) \<or>
     (error r = Some ''Failed to generate summary'' \<and>
        (\<exists>v t. v \<noteq> [] \<and> t \<noteq> [] \<and> extract_video_id (urllib env) url = Some v \<and>
           fst (get_transcript env w v None) = Some t \<and> transcript r = Some t) \<and>
        summary r = None)))"
proof (intro conjI impI)
  assume "extract_video_id (urllib env) url = None \<or> extract_video_id (urllib env) url = Some []"
  then show "fst (process_video self env w url save) =
        \<lparr>video_id = [], title = None, transcript = None, summary = None,
           error = Some ''Invalid YouTube URL''\<rparr>"
    by (simp add: process_video_invalid invalid_url_def)
next
  assume "extract_video_id (urllib env) url = Some vid \<and> vid \<noteq> [] \<and>
      (fst (get_transcript env w vid None) = None \<or>
       fst (get_transcript env w vid None) = Some [])"
  then show "fst (process_video self env w url save) =
        \<lparr>video_id = vid, title = None, transcript = None, summary = None,
           error = Some ''Failed to fetch transcript''\<rparr>"
    by (simp add: process_video_no_transcript)
next
  assume "extract_video_id (urllib env) url = Some vid \<and> vid \<noteq> [] \<and>
      fst (get_transcript env w vid None) = Some t \<and> t \<noteq> [] \<and>
      (generate_content env (model_name self) (create_summary_prompt t) = None \<or>
       generate_content env (model_name self) (create_summary_prompt t) = Some [])"
  then show "fst (process_video self env w url save) =
        \<lparr>video_id = vid, title = None, transcript = Some t, summary = None,
           error = Some ''Failed to generate summary''\<rparr>"
    by (simp add: process_video_no_summary)
next
  assume "extract_video_id (urllib env) url = Some vid \<and> vid \<noteq> [] \<and>
      fst (get_transcript env w vid None) = Some t \<and> t \<noteq> [] \<and>
      generate_content env (model_name self) (create_summary_prompt t) = Some g \<and> g \<noteq> []"
  then show "fst (process_video self env w url save) =
        \<lparr>video_id = vid, title = None, transcript = Some t, summary = Some g, error = None\<rparr>"
    by (simp add: process_video_success Let_def)
next
  show "let r = fst (process_video self env w url save) in
    title r = None \<and>
    ((error r = None \<and> (\<exists>t g. t \<noteq> [] \<and> g \<noteq> [] \<and> transcript r = Some t \<and> summary r = Some g)) \<or>
     (error r = Some ''Invalid YouTube URL'' \<and> video_id r = [] \<and>
        transcript r = None \<and> summary r = None) \<or>
     (error r = Some ''Failed to fetch transcript'' \<and> transcript r = None \<and> summary r = None) \<or>
     (error r = Some ''Failed to generate summary'' \<and>
        (\<exists>v t. v \<noteq> [] \<and> t \<noteq> [] \<and> extract_video_id (urllib env) url = Some v \<and>
           fst (get_transcript env w v None) = Some t \<and> transcript r = Some t) \<and>
        summary r = None))"
  proof (cases rule: process_video_cases [where env = env and url = url and w = w and self = self])
    case invalid
    then show ?thesis by (simp add: process_video_invalid invalid_url_def)
  next
    case (no_transcript vid)
    then show ?thesis by (simp add: process_video_no_transcript)
  next
    case (no_summary vid t)
    then show ?thesis by (simp add: process_video_no_summary)
  next
    case (success vid t g)
    then show ?thesis by (simp add: process_video_success Let_def)
  qed
qed

theorem process_video_terminal_states_witness:
  "extract_video_id (urllib example_env) ''https://example.com/abc123'' = None \<and>
   fst (process_video example_self example_env empty_world ''https://example.com/abc123'' False) =
     \<lparr>video_id = [], title = None, transcript = None, summary = None,
        error = Some ''Invalid YouTube URL''\<rparr> \<and>
   extract_video_id (urllib example_env) ''https://youtu.be/zzz'' = Some ''zzz'' \<and>
   fst (get_transcript example_env empty_world ''zzz'' None) = None \<and>
   fst (process_video example_self example_env empty_world ''https://youtu.be/zzz'' False) =
     \<lparr>video_id = ''zzz'', title = None, transcript = None, summary = None,
        error = Some ''Failed to fetch transcript''\<rparr> \<and>
   extract_video_id (urllib example_env) ''https://youtu.be/abc123'' = Some ''abc123'' \<and>
   fst (get_transcript example_env empty_world ''abc123'' None) = Some ''Hello world'' \<and>
   generate_content example_env (model_name other_self) (create_summary_prompt ''Hello world'') = None \<and>
   fst (process_video other_self example_env empty_world ''https://youtu.be/abc123'' False) =
     \<lparr>video_id = ''abc123'', title = None, transcript = Some ''Hello world'', summary = None,
        error = Some ''Failed to generate summary''\<rparr> \<and>
   generate_content example_env (model_name example_self) (create_summary_prompt ''Hello world'')
     = Some ''Summary'' \<and>
   fst (process_video example_self example_env empty_world ''https://youtu.be/abc123'' False) =
     \<lparr>video_id = ''abc123'', title = None, transcript = Some ''Hello world'',
        summary = Some ''Summary'', error = None\<rparr>"
proof -
  note e1 = extract_example_com and e2 = extract_zzz and e3 = extract_abc123
    and t2 = transcript_zzz [of empty_world] and t3 = transcript_abc123 [of empty_world]
    and g3 = generate_other [of "create_summary_prompt ''Hello world''"]
    and g4 = generate_example [of "create_summary_prompt ''Hello world''"]
  from e1 process_video_terminal_states [where env = example_env and url = "''https://example.com/abc123''"
      and self = example_self and w = empty_world and save = False]
  have a: "fst (process_video example_self example_env empty_world ''https://example.com/abc123'' False) =
     \<lparr>video_id = [], title = None, transcript = None, summary = None,
        error = Some ''Invalid YouTube URL''\<rparr>"
    by blast
  from e2 t2 process_video_terminal_states [where env = example_env and url = "''https://youtu.be/zzz''"
      and self = example_self and w = empty_world and save = False and vid = "''zzz''"]
  have b: "fst (process_video example_self example_env empty_world ''https://youtu.be/zzz'' False) =
     \<lparr>video_id = ''zzz'', title = None, transcript = None, summary = None,
        error = Some ''Failed to fetch transcript''\<rparr>"
    by simp
  from e3 t3 g3 process_video_terminal_states [where env = example_env and url = "''https://youtu.be/abc123''"
      and self = other_self and w = empty_world and save = False and vid = "''abc123''"
      and t = "''Hello world''"]
  have c: "fst (process_video other_self example_env empty_world ''https://youtu.be/abc123'' False) =
     \<lparr>video_id = ''abc123'', title = None, transcript = Some ''Hello world'', summary = None,
        error = Some ''Failed to generate summary''\<rparr>"
    by simp
  from e3 t3 g4 process_video_terminal_states [where env = example_env and url = "''https://youtu.be/abc123''"
      and self = example_self and w = empty_world and save = False and vid = "''abc123''"
      and t = "''Hello world''" and g = "''Summary''"]
  have d: "fst (process_video example_self example_env empty_world ''https://youtu.be/abc123'' False) =
     \<lparr>video_id = ''abc123'', title = None, transcript = Some ''Hello world'',
        summary = Some ''Summary'', error = None\<rparr>"
    by simp
  from a b c d e1 e2 e3 t2 t3 g3 g4 show ?thesis
    by (intro conjI)
qed

section \<open>Persistence: properties\<close>

subsection \<open>The file name\<close>

lemma py_join_split: "sep \<noteq> [] \<Longrightarrow> py_join sep (py_split sep s) = s"
proof (induction sep s rule: py_split.induct)
  case (1 sep s)
  show ?case
  proof (cases "find_sep sep s")
    case None
    then have "py_split sep s = [s]"
      using "1.prems" by (subst py_split.simps) simp
    then show ?thesis by simp
  next
    case (Some ba)
    then obtain b a where f: "find_sep sep s = Some (b, a)" by (cases ba) auto
    then have sp: "py_split sep s = b # py_split sep a"
      using "1.prems" by (subst py_split.simps) simp
    obtain y ys where ys: "py_split sep a = y # ys"
      using py_split_not_Nil [of sep a] by (cases "py_split sep a") auto
    from "1.IH" [OF "1.prems" f refl "1.prems"] have "py_join sep (py_split sep a) = a" .
    with sp ys have "py_join sep (py_split sep s) = b @ sep @ a" by simp
    with find_sep_Some [OF f] show ?thesis by simp
  qed
qed

lemma py_split_keeps_head:
  "c \<noteq> d \<Longrightarrow> \<exists>b more. py_split [d] (c # x) = (c # b) # more"
  by (subst py_split.simps) (auto split: option.splits)




lemma output_file_not_summaries: "output_file s \<noteq> ''summaries''"
proof -
  obtain b more where "py_split ''/'' (''summary_'' @ video_id s @ ''.json'') = (CHR ''s'' # b) # more"
    using py_split_keeps_head [of "CHR ''s''" "CHR ''/''" "''ummary_'' @ video_id s @ ''.json''"]
    by auto
  then have "posix_parts (''summary_'' @ video_id s @ ''.json'') =
               (CHR ''s'' # b) # filter (\<lambda>x. x \<noteq> [] \<and> x \<noteq> ''.'') more"
    by (simp add: posix_parts_def)
  then show ?thesis by (simp add: output_file_def)
qed

subsection \<open>The JSON text\<close>










subsection \<open>The write\<close>

lemma save_summary_files:
  "files (save_summary env w s) =
     (if files w ''summaries'' \<noteq> None \<or> mkdir_refused env ''summaries'' \<or>
         output_file s \<in> dirs w \<or> open_refused env (output_file s)
      then files w
      else (files w)(output_file s \<mapsto> json_dump_indent2 (summary_dict s)))"
  using output_file_not_summaries [of s]
  by (simp add: save_summary_def emit_def Let_def)

lemma save_summary_dirs:
  "dirs (save_summary env w s) =
     (if files w ''summaries'' \<noteq> None \<or> mkdir_refused env ''summaries'' then dirs w
      else insert ''summaries'' (dirs w))"
  by (simp add: save_summary_def emit_def Let_def)

lemma save_summary_events:
  "events (save_summary env w s) =
     events w @ (if files w ''summaries'' \<noteq> None \<or> mkdir_refused env ''summaries''
                 then [Mkdir ''summaries'']
                 else [Mkdir ''summaries'', OpenWrite (output_file s)])"
  by (simp add: save_summary_def emit_def Let_def)











text \<open>
  C8. Saving a record after another record of the same identifier leaves the files
  and the directories as saving the second record alone does. Both records have the
  same file name; when the directory can be made and the file can be opened, the file
  holds the text of the first record after the first save and the text of the second
  record, and nothing else, after the second, and no other file has changed.
\<close>

theorem save_summary_overwrites:
  assumes "video_id r1 = video_id r2"
  shows "files (save_summary env (save_summary env w r1) r2) = files (save_summary env w r2) \<and>
         dirs (save_summary env (save_summary env w r1) r2) = dirs (save_summary env w r2) \<and>
         output_file r1 = output_file r2 \<and>
         (files w ''summaries'' = None \<and> \<not> mkdir_refused env ''summaries'' \<and>
          output_file r2 \<notin> dirs w \<and> \<not> open_refused env (output_file r2) \<longrightarrow>
            files (save_summary env w r1) =
              (files w)(output_file r2 \<mapsto> json_dump_indent2 (summary_dict r1)) \<and>
            files (save_summary env (save_summary env w r1) r2) =
              (files w)(output_file r2 \<mapsto> json_dump_indent2 (summary_dict r2)))"
proof -
  have same: "output_file r1 = output_file r2"
    using assms by (simp add: output_file_def)
  have ne: "output_file r2 \<noteq> ''summaries''"
    by (rule output_file_not_summaries)
  show ?thesis
    using same ne by (auto simp: save_summary_files save_summary_dirs)
qed

theorem save_summary_overwrites_witness:
  "video_id first_record = video_id second_record \<and>
   files empty_world ''summaries'' = None \<and> \<not> mkdir_refused example_env ''summaries'' \<and>
   output_file second_record \<notin> dirs empty_world \<and>
   \<not> open_refused example_env (output_file second_record) \<and>
   files (save_summary example_env empty_world first_record) (output_file second_record) =
     Some (json_dump_indent2 (summary_dict first_record)) \<and>
   files (save_summary example_env (save_summary example_env empty_world first_record) second_record)
       (output_file second_record) =
     Some (json_dump_indent2 (summary_dict second_record)) \<and>
   files (save_summary example_env (save_summary example_env empty_world first_record) second_record) =
     files (save_summary example_env empty_world second_record)"
proof -
  have h: "video_id first_record = video_id second_record"
    by (simp add: first_record_def second_record_def)
  have h1: "files empty_world ''summaries'' = None"
    by (simp add: empty_world_def)
  have h2: "\<not> mkdir_refused example_env ''summaries''"
    by (simp add: example_env_def)
  have h3: "output_file second_record \<notin> dirs empty_world"
    by (simp add: empty_world_def)
  have h4: "\<not> open_refused example_env (output_file second_record)"
    by (simp add: example_env_def)
  note inst = save_summary_overwrites [OF h, of example_env empty_world]
  from inst h1 h2 h3 h4
  have a: "files (save_summary example_env empty_world first_record) =
              (files empty_world)(output_file second_record \<mapsto> json_dump_indent2 (summary_dict first_record))"
    and b: "files (save_summary example_env (save_summary example_env empty_world first_record) second_record) =
              (files empty_world)(output_file second_record \<mapsto> json_dump_indent2 (summary_dict second_record))"
    by blast+
  from inst have c: "files (save_summary example_env (save_summary example_env empty_world first_record) second_record) =
     files (save_summary example_env empty_world second_record)"
    by blast
  from b c have d: "files (save_summary example_env empty_world second_record) =
              (files empty_world)(output_file second_record \<mapsto> json_dump_indent2 (summary_dict second_record))"
    by simp
  from h h1 h2 h3 h4 show ?thesis
    by (simp add: a b d)
qed

text \<open>
  C9. The events of a run extend the events before it. A run that returns a record
  with an error leaves the files and the directories as they were and makes no
  file-system call; a run that makes a file-system call was asked to save and returns
  a record without error, with a transcript and a summary.
\<close>

theorem failed_run_writes_nothing:
  "(let r = fst (process_video self env w url save); w' = snd (process_video self env w url save) in
    take (length (events w)) (events w') = events w \<and>
    (error r \<noteq> None \<longrightarrow>
       files w' = files w \<and> dirs w' = dirs w \<and> filter fs_event (new_events w w') = []) \<and>
    (filter fs_event (new_events w w') \<noteq> [] \<longrightarrow>
       save \<and> error r = None \<and> (\<exists>t. transcript r = Some t) \<and> (\<exists>g. summary r = Some g)))"
proof (cases rule: process_video_cases [where env = env and url = url and w = w and self = self])
  case invalid
  then show ?thesis by (simp add: process_video_invalid invalid_url_def new_events_def)
next
  case (no_transcript vid)
  then show ?thesis
    by (simp add: process_video_no_transcript new_events_def emit_def fs_event_def)
next
  case (no_summary vid t)
  then show ?thesis
    by (simp add: process_video_no_summary new_events_def emit_def fs_event_def)
next
  case (success vid t g)
  then show ?thesis
    by (simp add: process_video_success Let_def new_events_def emit_def fs_event_def
          save_summary_events)
qed

theorem failed_run_writes_nothing_witness:
  "error (fst (process_video example_self example_env empty_world ''https://youtu.be/zzz'' True)) \<noteq> None \<and>
   files (snd (process_video example_self example_env empty_world ''https://youtu.be/zzz'' True)) = Map.empty \<and>
   dirs (snd (process_video example_self example_env empty_world ''https://youtu.be/zzz'' True)) = {} \<and>
   filter fs_event (new_events empty_world
      (snd (process_video example_self example_env empty_world ''https://youtu.be/zzz'' True))) = [] \<and>
   filter fs_event (new_events empty_world
      (snd (process_video example_self example_env empty_world ''https://youtu.be/abc123'' True))) \<noteq> [] \<and>
   error (fst (process_video example_self example_env empty_world ''https://youtu.be/abc123'' True)) = None"
proof -
  have e: "error (fst (process_video example_self example_env empty_world ''https://youtu.be/zzz'' True)) \<noteq> None"
    using process_video_no_transcript [OF extract_zzz, of empty_world example_self True] transcript_zzz
    by simp
  have f: "filter fs_event (new_events empty_world
      (snd (process_video example_self example_env empty_world ''https://youtu.be/abc123'' True))) \<noteq> []"
    using process_video_success [OF extract_abc123 _ transcript_abc123 _ generate_example, of empty_world True]
    by (simp add: Let_def new_events_def save_summary_events emit_def empty_world_def fs_event_def)
  from e failed_run_writes_nothing [of example_self example_env empty_world "''https://youtu.be/zzz''" True]
  have a: "files (snd (process_video example_self example_env empty_world ''https://youtu.be/zzz'' True)) = files empty_world \<and>
   dirs (snd (process_video example_self example_env empty_world ''https://youtu.be/zzz'' True)) = dirs empty_world \<and>
   filter fs_event (new_events empty_world
      (snd (process_video example_self example_env empty_world ''https://youtu.be/zzz'' True))) = []"
    by (simp add: Let_def)
  from f failed_run_writes_nothing [of example_self example_env empty_world "''https://youtu.be/abc123''" True]
  have b: "error (fst (process_video example_self example_env empty_world ''https://youtu.be/abc123'' True)) = None"
    by (simp add: Let_def)
  from a b e f show ?thesis by (simp add: empty_world_def)
qed

section \<open>Identifier extraction: properties\<close>

subsection \<open>Plain identifiers and the parser\<close>





lemma takeWhile_absent [simp]: "c \<notin> set xs \<Longrightarrow> takeWhile (\<lambda>x. x \<noteq> c) xs = xs"
  by (induction xs) auto

lemma dropWhile_absent [simp]: "c \<notin> set xs \<Longrightarrow> dropWhile (\<lambda>x. x \<noteq> c) xs = []"
  by (induction xs) auto

lemma takeWhile_past [simp]:
  "c \<notin> set xs \<Longrightarrow> takeWhile (\<lambda>x. x \<noteq> c) (xs @ ys) = xs @ takeWhile (\<lambda>x. x \<noteq> c) ys"
  by (induction xs) auto

lemma dropWhile_past [simp]:
  "c \<notin> set xs \<Longrightarrow> dropWhile (\<lambda>x. x \<noteq> c) (xs @ ys) = dropWhile (\<lambda>x. x \<noteq> c) ys"
  by (induction xs) auto





subsection \<open>Plain identifiers in paths and queries\<close>





subsection \<open>The supported shapes\<close>








lemma trailing_segment_after:
  "CHR ''/'' \<notin> set vid \<Longrightarrow> spec_trailing_path_segment (pre @ sep @ CHR ''/'' # vid) = vid"
  by (simp add: spec_trailing_path_segment_def)

lemma first_segment_whole:
  "CHR ''/'' \<notin> set (drop 1 p) \<Longrightarrow> spec_first_path_segment p = drop 1 p"
  by (simp add: spec_first_path_segment_def)

lemma first_segment_prefix: "prefix (spec_first_path_segment p) (drop 1 p)"
  unfolding spec_first_path_segment_def
  by (metis prefixI takeWhile_dropWhile_id)

lemma empty_ids:
  "extract_video_id lib ''https://youtu.be/'' = Some []"
  "extract_video_id lib ''https://youtu.be'' = Some []"
  "extract_video_id lib ''https://www.youtube.com/embed/'' = Some []"
  "extract_video_id lib ''https://www.youtube.com/watch?v='' = None"
  by code_simp+



subsection \<open>Query parameters, percent-encoding and path markers\<close>

lemma py_in_sublist: "py_in sep s \<longleftrightarrow> sublist sep s"
proof (induction s)
  case Nil
  then show ?case by (simp add: py_in_def)
next
  case (Cons c cs)
  then show ?case
    by (auto simp: py_in_def sublist_Cons_right)
qed
























lemma segment_no_slash:
  "CHR ''/'' \<notin> set (spec_first_path_segment p)" "CHR ''/'' \<notin> set (spec_trailing_path_segment p)"
proof -
  have "CHR ''/'' \<notin> set (takeWhile (\<lambda>c. c \<noteq> CHR ''/'') xs)" for xs :: string
    by (induction xs) auto
  then show "CHR ''/'' \<notin> set (spec_first_path_segment p)"
    "CHR ''/'' \<notin> set (spec_trailing_path_segment p)"
    by (simp_all add: spec_first_path_segment_def spec_trailing_path_segment_def)
qed

lemma marker_rule:
  assumes "py_in (m @ ''/'') pth"
  shows "(\<exists>pre. pth = pre @ (m @ ''/'') @ last (py_split (m @ ''/'') pth)) \<and>
         \<not> py_in (m @ ''/'') (last (py_split (m @ ''/'') pth)) \<and>
         (last (py_split (m @ ''/'') pth) = spec_trailing_path_segment pth \<longleftrightarrow>
            CHR ''/'' \<notin> set (last (py_split (m @ ''/'') pth)))"
proof -
  let ?vid = "last (py_split (m @ ''/'') pth)"
  from assms last_py_split [of "m @ ''/''" pth]
  obtain pre where pre: "pth = pre @ (m @ ''/'') @ ?vid" by auto
  have clean: "\<not> py_in (m @ ''/'') ?vid"
    by (rule last_py_split_clean) simp
  have "?vid = spec_trailing_path_segment pth" if "CHR ''/'' \<notin> set ?vid"
    using trailing_segment_after [OF that, of pre m] pre by simp
  moreover have "CHR ''/'' \<notin> set ?vid" if "?vid = spec_trailing_path_segment pth"
    using segment_no_slash(2) [of pth] that by simp
  ultimately show ?thesis using pre clean by blast
qed






text \<open>
  C4, as the specification states it, fails: the short link \<open>youtu.be/a/b\<close> gives
  \<open>a/b\<close>, not its first segment \<open>a\<close>, and the path \<open>/embed/abc/def\<close> gives \<open>abc/def\<close>, not its
  trailing segment \<open>def\<close>.
\<close>

theorem short_link_keeps_whole_path:
  "extract_video_id example_lib ''https://youtu.be/a/b'' = Some ''a/b'' \<and>
   map_option (\<lambda>p. spec_first_path_segment (path p)) (urlparse example_lib ''https://youtu.be/a/b'')
     = Some ''a'' \<and>
   extract_video_id example_lib ''https://www.youtube.com/embed/abc/def'' = Some ''abc/def'' \<and>
   map_option (\<lambda>p. spec_trailing_path_segment (path p))
     (urlparse example_lib ''https://www.youtube.com/embed/abc/def'') = Some ''def''"
  by code_simp

text \<open>
  C4, amended. For a short-link host the identifier is the path without its first
  character; the first path segment is a prefix of it, and the two are equal exactly
  when no further slash follows. For a canonical host and a path other than \<open>/watch\<close>
  that contains \<open>/embed/\<close>, the identifier is the last of the pieces into which
  \<open>split('/embed/')\<close> cuts the path (the pieces joined by \<open>/embed/\<close> are the path again): it
  follows an occurrence of \<open>/embed/\<close>, contains none, and is the trailing path segment
  exactly when it contains no slash. The same holds for \<open>/v/\<close> when the path does not
  contain \<open>/embed/\<close>.
\<close>

theorem extract_video_id_path_rules:
  assumes "urlparse lib url = Some p"
  shows
   "(netloc p = ''youtu.be'' \<longrightarrow>
       extract_video_id lib url = Some (drop 1 (path p)) \<and>
       prefix (spec_first_path_segment (path p)) (drop 1 (path p)) \<and>
       (drop 1 (path p) = spec_first_path_segment (path p) \<longleftrightarrow>
          CHR ''/'' \<notin> set (drop 1 (path p)))) \<and>
    ((netloc p = ''youtube.com'' \<or> netloc p = ''www.youtube.com'') \<and> path p \<noteq> ''/watch'' \<and>
       py_in ''/embed/'' (path p) \<longrightarrow>
       extract_video_id lib url = Some (last (py_split ''/embed/'' (path p))) \<and>
       (\<exists>pre. path p = pre @ ''/embed/'' @ last (py_split ''/embed/'' (path p))) \<and>
       \<not> py_in ''/embed/'' (last (py_split ''/embed/'' (path p))) \<and>
       (last (py_split ''/embed/'' (path p)) = spec_trailing_path_segment (path p) \<longleftrightarrow>
          CHR ''/'' \<notin> set (last (py_split ''/embed/'' (path p))))) \<and>
    ((netloc p = ''youtube.com'' \<or> netloc p = ''www.youtube.com'') \<and> path p \<noteq> ''/watch'' \<and>
       \<not> py_in ''/embed/'' (path p) \<and> py_in ''/v/'' (path p) \<longrightarrow>
       extract_video_id lib url = Some (last (py_split ''/v/'' (path p))) \<and>
       (\<exists>pre. path p = pre @ ''/v/'' @ last (py_split ''/v/'' (path p))) \<and>
       \<not> py_in ''/v/'' (last (py_split ''/v/'' (path p))) \<and>
       (last (py_split ''/v/'' (path p)) = spec_trailing_path_segment (path p) \<longleftrightarrow>
          CHR ''/'' \<notin> set (last (py_split ''/v/'' (path p))))) \<and>
    py_join ''/embed/'' (py_split ''/embed/'' (path p)) = path p \<and>
    py_join ''/v/'' (py_split ''/v/'' (path p)) = path p \<and>
    (py_in ''/embed/'' (path p) \<longleftrightarrow> sublist ''/embed/'' (path p)) \<and>
    (py_in ''/v/'' (path p) \<longleftrightarrow> sublist ''/v/'' (path p))"
proof (intro conjI impI)
  assume "netloc p = ''youtu.be''"
  with assms show "extract_video_id lib url = Some (drop 1 (path p))"
    by (simp add: extract_video_id_def video_id_of_parsed_def)
next
  show "prefix (spec_first_path_segment (path p)) (drop 1 (path p))"
    by (rule first_segment_prefix)
next
  show "drop 1 (path p) = spec_first_path_segment (path p) \<longleftrightarrow> CHR ''/'' \<notin> set (drop 1 (path p))"
    using first_segment_whole [of "path p"] segment_no_slash(1) [of "path p"] by metis
next
  assume a: "(netloc p = ''youtube.com'' \<or> netloc p = ''www.youtube.com'') \<and> path p \<noteq> ''/watch'' \<and>
       py_in ''/embed/'' (path p)"
  show "extract_video_id lib url = Some (last (py_split ''/embed/'' (path p)))"
    using a assms by (auto simp: extract_video_id_def video_id_of_parsed_def)
  from a marker_rule [of "''/embed''" "path p"]
  show "\<exists>pre. path p = pre @ ''/embed/'' @ last (py_split ''/embed/'' (path p))"
    "\<not> py_in ''/embed/'' (last (py_split ''/embed/'' (path p)))"
    "last (py_split ''/embed/'' (path p)) = spec_trailing_path_segment (path p) \<longleftrightarrow>
          CHR ''/'' \<notin> set (last (py_split ''/embed/'' (path p)))"
    by simp_all
next
  assume a: "(netloc p = ''youtube.com'' \<or> netloc p = ''www.youtube.com'') \<and> path p \<noteq> ''/watch'' \<and>
       \<not> py_in ''/embed/'' (path p) \<and> py_in ''/v/'' (path p)"
  show "extract_video_id lib url = Some (last (py_split ''/v/'' (path p)))"
    using a assms by (auto simp: extract_video_id_def video_id_of_parsed_def)
  from a marker_rule [of "''/v''" "path p"]
  show "\<exists>pre. path p = pre @ ''/v/'' @ last (py_split ''/v/'' (path p))"
    "\<not> py_in ''/v/'' (last (py_split ''/v/'' (path p)))"
    "last (py_split ''/v/'' (path p)) = spec_trailing_path_segment (path p) \<longleftrightarrow>
          CHR ''/'' \<notin> set (last (py_split ''/v/'' (path p)))"
    by simp_all
next
  show "py_join ''/embed/'' (py_split ''/embed/'' (path p)) = path p"
    by (rule py_join_split) simp
  show "py_join ''/v/'' (py_split ''/v/'' (path p)) = path p"
    by (rule py_join_split) simp
  show "py_in ''/embed/'' (path p) \<longleftrightarrow> sublist ''/embed/'' (path p)"
    by (rule py_in_sublist)
  show "py_in ''/v/'' (path p) \<longleftrightarrow> sublist ''/v/'' (path p)"
    by (rule py_in_sublist)
qed

theorem extract_video_id_path_rules_witness:
  "urlparse example_lib ''https://youtu.be/a/b'' = Some short_parsed \<and>
   netloc short_parsed = ''youtu.be'' \<and>
   extract_video_id example_lib ''https://youtu.be/a/b'' = Some ''a/b'' \<and>
   urlparse example_lib ''https://www.youtube.com/embed/abc123'' = Some embed_parsed \<and>
   py_in ''/embed/'' (path embed_parsed) \<and>
   extract_video_id example_lib ''https://www.youtube.com/embed/abc123'' = Some ''abc123'' \<and>
   ''abc123'' = spec_trailing_path_segment (path embed_parsed) \<and>
   urlparse example_lib ''https://www.youtube.com/embed/embed/x'' = Some embed_twice_parsed \<and>
   py_in ''/embed/'' (path embed_twice_parsed) \<and>
   extract_video_id example_lib ''https://www.youtube.com/embed/embed/x'' = Some ''embed/x'' \<and>
   urlparse example_lib ''https://youtube.com/v/abc123'' = Some v_parsed \<and>
   py_in ''/v/'' (path v_parsed) \<and>
   extract_video_id example_lib ''https://youtube.com/v/abc123'' = Some ''abc123''"
proof -
  have u1: "urlparse example_lib ''https://youtu.be/a/b'' = Some short_parsed"
    unfolding short_parsed_def by code_simp
  have u2: "urlparse example_lib ''https://www.youtube.com/embed/abc123'' = Some embed_parsed"
    unfolding embed_parsed_def by code_simp
  have u3: "urlparse example_lib ''https://youtube.com/v/abc123'' = Some v_parsed"
    unfolding v_parsed_def by code_simp
  have u4: "urlparse example_lib ''https://www.youtube.com/embed/embed/x'' = Some embed_twice_parsed"
    unfolding embed_twice_parsed_def by code_simp
  have n1: "netloc short_parsed = ''youtu.be''" "drop 1 (path short_parsed) = ''a/b''"
    by (simp_all add: short_parsed_def)
  have n2: "netloc embed_parsed = ''www.youtube.com''" "path embed_parsed \<noteq> ''/watch''"
    "py_in ''/embed/'' (path embed_parsed)"
    by (simp_all add: embed_parsed_def py_in_def)
  have l2: "last (py_split ''/embed/'' (path embed_parsed)) = ''abc123''"
    unfolding embed_parsed_def by code_simp
  have n3: "netloc v_parsed = ''youtube.com''" "path v_parsed \<noteq> ''/watch''"
    "\<not> py_in ''/embed/'' (path v_parsed)" "py_in ''/v/'' (path v_parsed)"
    by (simp_all add: v_parsed_def py_in_def)
  have l3: "last (py_split ''/v/'' (path v_parsed)) = ''abc123''"
    unfolding v_parsed_def by code_simp
  have n4: "netloc embed_twice_parsed = ''www.youtube.com''" "path embed_twice_parsed \<noteq> ''/watch''"
    "py_in ''/embed/'' (path embed_twice_parsed)"
    by (simp_all add: embed_twice_parsed_def py_in_def)
  have l4: "last (py_split ''/embed/'' (path embed_twice_parsed)) = ''embed/x''"
    unfolding embed_twice_parsed_def by code_simp
  from extract_video_id_path_rules [OF u1] n1
  have a: "extract_video_id example_lib ''https://youtu.be/a/b'' = Some ''a/b''"
    by simp
  from extract_video_id_path_rules [OF u2] n2
  have b: "extract_video_id example_lib ''https://www.youtube.com/embed/abc123'' =
             Some (last (py_split ''/embed/'' (path embed_parsed)))"
    and b': "last (py_split ''/embed/'' (path embed_parsed)) = spec_trailing_path_segment (path embed_parsed) \<longleftrightarrow>
          CHR ''/'' \<notin> set (last (py_split ''/embed/'' (path embed_parsed)))"
    by blast+
  from b' have b'': "''abc123'' = spec_trailing_path_segment (path embed_parsed)"
    unfolding l2 by simp
  from extract_video_id_path_rules [OF u3] n3
  have c: "extract_video_id example_lib ''https://youtube.com/v/abc123'' =
             Some (last (py_split ''/v/'' (path v_parsed)))"
    by blast
  from extract_video_id_path_rules [OF u4] n4
  have d: "extract_video_id example_lib ''https://www.youtube.com/embed/embed/x'' =
             Some (last (py_split ''/embed/'' (path embed_twice_parsed)))"
    by blast
  from u1 u2 u3 u4 n1(1) n2(3) n3(4) n4(3) a b [unfolded l2] b'' c [unfolded l3] d [unfolded l4]
  show ?thesis by (intro conjI)
qed

text \<open>
  C10, as stated, fails for the \<open>/watch\<close> URL whose \<open>v\<close> parameter is empty: \<open>parse_qs\<close>
  drops blank values, so the key \<open>v\<close> is absent and the result is \<open>None\<close>, not the empty
  string.
\<close>

theorem watch_blank_v_gives_none:
  "extract_video_id example_lib ''https://www.youtube.com/watch?v='' = None \<and>
   map_option query (urlparse example_lib ''https://www.youtube.com/watch?v='') = Some ''v='' \<and>
   parse_qsl example_lib ''v='' = []"
  by code_simp

text \<open>
  C10, amended. \<open>extract_video_id\<close> returns the empty string for the short link with an
  empty path and for a canonical URL that ends in \<open>/embed/\<close>; for the \<open>/watch\<close> URL with an
  empty \<open>v\<close> it returns \<open>None\<close>. \<open>process_video\<close> treats the empty string and \<open>None\<close> alike:
  it returns the invalid-URL record, whose identifier is the empty string, and leaves
  the world unchanged.
\<close>

theorem empty_identifier_is_invalid:
  "extract_video_id lib ''https://youtu.be/'' = Some [] \<and>
   extract_video_id lib ''https://youtu.be'' = Some [] \<and>
   extract_video_id lib ''https://www.youtube.com/embed/'' = Some [] \<and>
   extract_video_id lib ''https://www.youtube.com/watch?v='' = None \<and>
   (extract_video_id (urllib env) url = Some [] \<or> extract_video_id (urllib env) url = None \<longrightarrow>
      process_video self env w url save = (invalid_url, w) \<and>
      video_id invalid_url = [] \<and> error invalid_url = Some ''Invalid YouTube URL'' \<and>
      transcript invalid_url = None \<and> summary invalid_url = None)"
  using process_video_invalid [of env url self w save]
  by (auto simp: empty_ids invalid_url_def)

theorem empty_identifier_is_invalid_witness:
  "extract_video_id (urllib example_env) ''https://youtu.be/'' = Some [] \<and>
   video_id (fst (process_video example_self example_env empty_world ''https://youtu.be/'' True)) = [] \<and>
   error (fst (process_video example_self example_env empty_world ''https://youtu.be/'' True))
     = Some ''Invalid YouTube URL'' \<and>
   snd (process_video example_self example_env empty_world ''https://youtu.be/'' True) = empty_world \<and>
   extract_video_id (urllib example_env) ''https://www.youtube.com/watch?v='' = None \<and>
   error (fst (process_video example_self example_env empty_world ''https://www.youtube.com/watch?v='' True))
     = Some ''Invalid YouTube URL''"
proof -
  note t1 = empty_identifier_is_invalid [of "urllib example_env" example_env "''https://youtu.be/''" example_self empty_world True]
  note t2 = empty_identifier_is_invalid [of "urllib example_env" example_env "''https://www.youtube.com/watch?v=''"
      example_self empty_world True]
  from t1 have e1: "extract_video_id (urllib example_env) ''https://youtu.be/'' = Some []"
    by blast
  from t2 have e2: "extract_video_id (urllib example_env) ''https://www.youtube.com/watch?v='' = None"
    by blast
  from t1 e1 have p1: "process_video example_self example_env empty_world ''https://youtu.be/'' True
      = (invalid_url, empty_world)" by blast
  from t2 e2 have p2: "process_video example_self example_env empty_world
      ''https://www.youtube.com/watch?v='' True = (invalid_url, empty_world)" by blast
  from t1 have i: "video_id invalid_url = []" "error invalid_url = Some ''Invalid YouTube URL''"
    by (simp_all add: invalid_url_def)
  from e1 e2 p1 p2 i show ?thesis by simp
qed

end
